theory Spec2Isabelle
  imports Complex_Main "HOL-Library.AList"
begin

section \<open>The banking ledger of main.py and Reference.py\<close>

text \<open>
  The service keeps two module-level dictionaries, \<open>users_db\<close> and \<open>loans_db\<close>, both
  keyed by the user's identifier, and six request handlers over them. The handlers are
  embedded as functions that take the two dictionaries as an explicit state and return
  the handler's outcome together with the state it leaves behind.

  Modelling choices, all of them visible in the definitions below.
  \<^item> A Python \<open>int\<close> is an \<open>int\<close>, a \<open>str\<close> a \<open>string\<close>. A Python \<open>float\<close> is a
    \<open>real\<close>: sums, differences and comparisons of amounts are the exact ones, and the
    models say nothing about rounding, infinities or NaN.
  \<^item> A dictionary is an association list in insertion order. \<open>d.get(k)\<close> is
    \<open>map_of d k\<close>, \<open>k in d\<close> is \<open>map_of d k \<noteq> None\<close>, \<open>d[k] = v\<close> is
    \<open>AList.update k v d\<close> (an existing key keeps its place, a new one goes last) and
    \<open>list(d.values())\<close> is \<open>map snd d\<close>.
  \<^item> The fields of the pydantic models are record fields, written with the name of
    their class in front (\<open>User_id\<close> for \<open>User.id\<close>), since record fields share one
    name space and \<open>amount\<close>, \<open>user_id\<close> and \<open>name\<close> occur in several classes.
  \<^item> A raised exception is the left summand of the handler's result. Every
    \<open>raise HTTPException(...)\<close> of the source is one constructor of \<open>error\<close>;
    \<open>status_code\<close> and \<open>detail\<close> give the two arguments the source passes.
  \<^item> An instance of a pydantic model is always truthy, so \<open>if not user\<close> and
    \<open>if find_loan_by_user_id(user_id)\<close> test for \<open>None\<close>.
  \<^item> A handler is the Python function, given its arguments already typed. The bounds
    the source declares on parameters, \<open>Path(..., ge=1)\<close> and \<open>Body(..., gt=0)\<close>, are
    default values that the framework reads when it serves a request; no function body
    checks them, and the call of \<open>perform_transaction\<close> inside \<open>take_loan\<close> passes both
    arguments itself. They are modelled where a request is served, in
    \<open>post_transaction\<close>.
\<close>

subsection \<open>Data model\<close>

record User =
  User_id :: int
  User_name :: string
  User_balance :: real

record Loan =
  Loan_user_id :: int
  Loan_amount :: real

datatype TransactionType = DEBIT | CREDIT

record Transaction =
  Transaction_type :: TransactionType
  Transaction_amount :: real

record BalanceResponse =
  BalanceResponse_user_id :: int
  BalanceResponse_name :: string
  BalanceResponse_current_balance :: real
  BalanceResponse_loan_details :: "Loan option"

record state =
  users_db :: "(int \<times> User) list"
  loans_db :: "(int \<times> Loan) list"

definition empty_state :: state where
  "empty_state = \<lparr>users_db = [], loans_db = []\<rparr>"

subsection \<open>Exceptions\<close>

text \<open>
  One constructor for each \<open>raise HTTPException\<close> of the two files. The first five are
  the outcomes the specification calls AlreadyExists, NotFound, InvalidAmount,
  InsufficientFunds and AlreadyHasLoan. \<open>Unexpected\<close> is the status 500 that the
  direct-call \<open>take_loan\<close> raises for an exception that is not an \<open>HTTPException\<close>, and
  \<open>CreditFailed\<close> the status 500 that the looped-back \<open>take_loan\<close> of Reference.py raises
  when its internal request does not answer 200; it carries the status and the detail
  text of that answer.
\<close>

datatype error =
    AlreadyExists int
  | NotFound int
  | InvalidAmount
  | InsufficientFunds
  | AlreadyHasLoan int
  | Unexpected string
  | CreditFailed nat string

datatype exn = HTTPException error | Exception string

fun status_code :: "error \<Rightarrow> nat" where
  "status_code (AlreadyExists i) = 400"
| "status_code (NotFound i) = 404"
| "status_code InvalidAmount = 400"
| "status_code InsufficientFunds = 400"
| "status_code (AlreadyHasLoan i) = 400"
| "status_code (Unexpected m) = 500"
| "status_code (CreditFailed st d) = 500"

text \<open>Python's \<open>str\<close> of an integer, as the f-strings of the details use it.\<close>

definition digit :: "nat \<Rightarrow> char" where
  "digit d = ''0123456789'' ! d"

fun str_nat :: "nat \<Rightarrow> string" where
  "str_nat n = (if n < 10 then [digit n] else str_nat (n div 10) @ [digit (n mod 10)])"

declare str_nat.simps [simp del]

definition str_int :: "int \<Rightarrow> string" where
  "str_int i = (if i < 0 then CHR ''-'' # str_nat (nat (- i)) else str_nat (nat i))"

fun detail :: "error \<Rightarrow> string" where
  "detail (AlreadyExists i) = ''User with ID '' @ str_int i @ '' already exists.''"
| "detail (NotFound i) = ''User with ID '' @ str_int i @ '' not found.''"
| "detail InvalidAmount = ''Transaction amount must be positive.''"
| "detail InsufficientFunds = ''Insufficient funds for debit.''"
| "detail (AlreadyHasLoan i) = ''User '' @ str_int i @ '' already has an active loan.''"
| "detail (Unexpected m) = ''Unexpected error processing transaction for loan: '' @ m"
| "detail (CreditFailed st d) =
     ''Failed to credit loan amount to balance. Status: '' @ str_nat st @ ''.'' @ '' Detail: '' @ d"

subsection \<open>The handlers of main.py\<close>

definition find_user_by_id :: "int \<Rightarrow> state \<Rightarrow> User option" where
  "find_user_by_id user_id s = map_of (users_db s) user_id"

definition find_loan_by_user_id :: "int \<Rightarrow> state \<Rightarrow> Loan option" where
  "find_loan_by_user_id user_id s = map_of (loans_db s) user_id"

text \<open>
  \<open>create_user\<close> takes a whole \<open>User\<close> from the request body, its balance included, and
  stores a fresh one built from the identifier and the name only.
\<close>

definition create_user :: "User \<Rightarrow> state \<Rightarrow> (exn + User) \<times> state" where
  "create_user user_input s =
     (if map_of (users_db s) (User_id user_input) \<noteq> None
      then (Inl (HTTPException (AlreadyExists (User_id user_input))), s)
      else
        let new_user = \<lparr>User_id = User_id user_input, User_name = User_name user_input,
                         User_balance = 0\<rparr>
        in (Inr new_user,
            s\<lparr>users_db := AList.update (User_id new_user) new_user (users_db s)\<rparr>))"

text \<open>
  \<open>perform_transaction\<close> changes the balance of the object it found and stores that
  object again under \<open>user_id\<close>. The enumeration has two members, so one of the two
  branches of the \<open>if\<close>/\<open>elif\<close> is always taken.
\<close>

definition perform_transaction :: "int \<Rightarrow> Transaction \<Rightarrow> state \<Rightarrow> (exn + User) \<times> state" where
  "perform_transaction user_id transaction s =
     (case find_user_by_id user_id s of
        None \<Rightarrow> (Inl (HTTPException (NotFound user_id)), s)
      | Some user \<Rightarrow>
          if Transaction_amount transaction \<le> 0
          then (Inl (HTTPException InvalidAmount), s)
          else
            (case Transaction_type transaction of
               DEBIT \<Rightarrow>
                 if User_balance user < Transaction_amount transaction
                 then (Inl (HTTPException InsufficientFunds), s)
                 else
                   let user' = user\<lparr>User_balance := User_balance user - Transaction_amount transaction\<rparr>
                   in (Inr user', s\<lparr>users_db := AList.update user_id user' (users_db s)\<rparr>)
             | CREDIT \<Rightarrow>
                 let user' = user\<lparr>User_balance := User_balance user + Transaction_amount transaction\<rparr>
                 in (Inr user', s\<lparr>users_db := AList.update user_id user' (users_db s)\<rparr>)))"

text \<open>
  \<open>take_loan\<close> of main.py, which is also, comments apart, the second (direct-call)
  \<open>take_loan\<close> of Reference.py. The \<open>try\<close> around the call of \<open>perform_transaction\<close>
  re-raises an \<open>HTTPException\<close> and turns any other exception into a status 500. In both
  cases the handler goes on from the state that the failed call left.
\<close>

definition take_loan :: "int \<Rightarrow> real \<Rightarrow> state \<Rightarrow> (exn + Loan) \<times> state" where
  "take_loan user_id loan_amount s =
     (case find_user_by_id user_id s of
        None \<Rightarrow> (Inl (HTTPException (NotFound user_id)), s)
      | Some user \<Rightarrow>
          (case find_loan_by_user_id user_id s of
             Some l \<Rightarrow> (Inl (HTTPException (AlreadyHasLoan user_id)), s)
           | None \<Rightarrow>
               (case perform_transaction user_id
                       \<lparr>Transaction_type = CREDIT, Transaction_amount = loan_amount\<rparr> s of
                  (Inl (HTTPException e), s') \<Rightarrow> (Inl (HTTPException e), s')
                | (Inl (Exception m), s') \<Rightarrow> (Inl (HTTPException (Unexpected m)), s')
                | (Inr updated_user, s') \<Rightarrow>
                    let new_loan = \<lparr>Loan_user_id = user_id, Loan_amount = loan_amount\<rparr>
                    in (Inr new_loan,
                        s'\<lparr>loans_db := AList.update user_id new_loan (loans_db s')\<rparr>))))"

definition get_internal_loan_info :: "int \<Rightarrow> state \<Rightarrow> exn + Loan option" where
  "get_internal_loan_info user_id s = Inr (find_loan_by_user_id user_id s)"

text \<open>
  The \<open>try\<close>/\<open>except Exception\<close> of \<open>get_user_balance_and_loan\<close>: whatever the lookup
  raises, the loan details are \<open>None\<close>; otherwise they are what the lookup returned.
\<close>

fun loan_details_or_none :: "exn + Loan option \<Rightarrow> Loan option" where
  "loan_details_or_none (Inl e) = None"
| "loan_details_or_none (Inr loan_details) = loan_details"

definition get_user_balance_and_loan :: "int \<Rightarrow> state \<Rightarrow> exn + BalanceResponse" where
  "get_user_balance_and_loan user_id s =
     (case find_user_by_id user_id s of
        None \<Rightarrow> Inl (HTTPException (NotFound user_id))
      | Some user \<Rightarrow>
          Inr \<lparr>BalanceResponse_user_id = User_id user,
               BalanceResponse_name = User_name user,
               BalanceResponse_current_balance = User_balance user,
               BalanceResponse_loan_details =
                 loan_details_or_none (get_internal_loan_info user_id s)\<rparr>)"

definition get_all_users :: "state \<Rightarrow> User list" where
  "get_all_users s = map snd (users_db s)"

definition get_all_loans :: "state \<Rightarrow> Loan list" where
  "get_all_loans s = map snd (loans_db s)"

subsection \<open>The looped-back loan handler of Reference.py\<close>

text \<open>
  The first \<open>take_loan\<close> of Reference.py credits the balance by a request to the
  application itself, \<open>client.post(f"/users/{user_id}/transaction", json=...)\<close>, and
  reads the status code of the answer. What answers is the route of
  \<open>perform_transaction\<close> as the source declares it: the path parameter is declared
  \<open>ge=1\<close>, so a smaller identifier is answered with status 422 and the handler does not
  run; an \<open>HTTPException\<close> of the handler is answered with its status code and its
  detail; a normal return is answered with 200, the route declaring no other status
  code; any other exception is raised again by the test client in the caller. The text
  of the 422 answer is the framework's and is a parameter here. The JSON body carries
  the transaction type and the amount unchanged. Every answer of the route that is not
  200 is a JSON object with a \<open>detail\<close>, so the handler's \<open>except\<close> for a body that
  cannot be read is never entered and the detail it quotes is that of the answer. The
  body of a 200 answer is never read; its detail is left empty.
\<close>

record Response =
  Response_status_code :: nat
  Response_detail :: string

definition post_transaction ::
    "string \<Rightarrow> int \<Rightarrow> Transaction \<Rightarrow> state \<Rightarrow> (exn + Response) \<times> state" where
  "post_transaction validation_detail user_id transaction s =
     (if user_id < 1
      then (Inr \<lparr>Response_status_code = 422, Response_detail = validation_detail\<rparr>, s)
      else
        (case perform_transaction user_id transaction s of
           (Inl (HTTPException e), s') \<Rightarrow>
             (Inr \<lparr>Response_status_code = status_code e, Response_detail = detail e\<rparr>, s')
         | (Inl (Exception m), s') \<Rightarrow> (Inl (Exception m), s')
         | (Inr user, s') \<Rightarrow>
             (Inr \<lparr>Response_status_code = 200, Response_detail = []\<rparr>, s')))"

definition take_loan_loopback ::
    "string \<Rightarrow> int \<Rightarrow> real \<Rightarrow> state \<Rightarrow> (exn + Loan) \<times> state" where
  "take_loan_loopback validation_detail user_id loan_amount s =
     (case find_user_by_id user_id s of
        None \<Rightarrow> (Inl (HTTPException (NotFound user_id)), s)
      | Some user \<Rightarrow>
          (case find_loan_by_user_id user_id s of
             Some l \<Rightarrow> (Inl (HTTPException (AlreadyHasLoan user_id)), s)
           | None \<Rightarrow>
               (case post_transaction validation_detail user_id
                       \<lparr>Transaction_type = CREDIT, Transaction_amount = loan_amount\<rparr> s of
                  (Inl e, s') \<Rightarrow> (Inl e, s')
                | (Inr response, s') \<Rightarrow>
                    if Response_status_code response \<noteq> 200
                    then (Inl (HTTPException
                                 (CreditFailed (Response_status_code response)
                                    (Response_detail response))), s')
                    else
                      let new_loan = \<lparr>Loan_user_id = user_id, Loan_amount = loan_amount\<rparr>
                      in (Inr new_loan,
                          s'\<lparr>loans_db := AList.update user_id new_loan (loans_db s')\<rparr>))))"

subsection \<open>Requests and reachable states\<close>

text \<open>
  One constructor for each route of main.py. \<open>handle\<close> is the state a request leaves
  behind, whether the handler returned or raised. The three reading handlers assign to
  neither dictionary and to no field of a stored object, so they leave the state as it
  is. The reachable states are those that some sequence of requests produces from the
  two empty dictionaries the module starts with.
\<close>

datatype request =
    CreateUser User
  | PerformTransaction int Transaction
  | TakeLoan int real
  | GetUserBalanceAndLoan int
  | GetAllUsers
  | GetAllLoans

fun handle :: "request \<Rightarrow> state \<Rightarrow> state" where
  "handle (CreateUser user_input) s = snd (create_user user_input s)"
| "handle (PerformTransaction user_id transaction) s = snd (perform_transaction user_id transaction s)"
| "handle (TakeLoan user_id loan_amount) s = snd (take_loan user_id loan_amount s)"
| "handle (GetUserBalanceAndLoan user_id) s = s"
| "handle GetAllUsers s = s"
| "handle GetAllLoans s = s"

inductive reachable :: "state \<Rightarrow> bool" where
  start: "reachable empty_state"
| request: "reachable s \<Longrightarrow> reachable (handle r s)"

subsection \<open>The example scenario\<close>

text \<open>
  The scenario of the specification's testable properties: Alice is created with
  identifier 1 (the request body offers a balance of 25, which is not taken), is
  credited 100, debited 30 and then takes a loan of 50. Bob, with identifier 2, is
  created after that.
\<close>

definition s_created :: state where
  "s_created =
     handle (CreateUser \<lparr>User_id = 1, User_name = ''Alice'', User_balance = 25\<rparr>) empty_state"

definition s_funded :: state where
  "s_funded =
     handle (PerformTransaction 1 \<lparr>Transaction_type = DEBIT, Transaction_amount = 30\<rparr>)
       (handle (PerformTransaction 1 \<lparr>Transaction_type = CREDIT, Transaction_amount = 100\<rparr>)
          s_created)"

definition s_loaned :: state where
  "s_loaned = handle (TakeLoan 1 50) s_funded"

definition s_two_users :: state where
  "s_two_users =
     handle (CreateUser \<lparr>User_id = 2, User_name = ''Bob'', User_balance = 0\<rparr>) s_loaned"

section \<open>Properties\<close>

subsection \<open>The example states, evaluated\<close>

lemma s_created_eq:
  "s_created = \<lparr>users_db = [(1, \<lparr>User_id = 1, User_name = ''Alice'', User_balance = 0\<rparr>)],
                 loans_db = []\<rparr>"
  by (simp add: s_created_def create_user_def empty_state_def Let_def)

lemma s_funded_eq:
  "s_funded = \<lparr>users_db = [(1, \<lparr>User_id = 1, User_name = ''Alice'', User_balance = 70\<rparr>)],
                loans_db = []\<rparr>"
  by (simp add: s_funded_def s_created_eq perform_transaction_def find_user_by_id_def Let_def)

lemma s_loaned_eq:
  "s_loaned = \<lparr>users_db = [(1, \<lparr>User_id = 1, User_name = ''Alice'', User_balance = 120\<rparr>)],
                loans_db = [(1, \<lparr>Loan_user_id = 1, Loan_amount = 50\<rparr>)]\<rparr>"
  by (simp add: s_loaned_def s_funded_eq take_loan_def perform_transaction_def
      find_user_by_id_def find_loan_by_user_id_def Let_def)

lemma s_two_users_eq:
  "s_two_users =
     \<lparr>users_db = [(1, \<lparr>User_id = 1, User_name = ''Alice'', User_balance = 120\<rparr>),
                  (2, \<lparr>User_id = 2, User_name = ''Bob'', User_balance = 0\<rparr>)],
      loans_db = [(1, \<lparr>Loan_user_id = 1, Loan_amount = 50\<rparr>)]\<rparr>"
  by (simp add: s_two_users_def s_loaned_eq create_user_def Let_def)

lemma reachable_s_created: "reachable s_created"
  unfolding s_created_def by (intro reachable.intros)

lemma reachable_s_funded: "reachable s_funded"
  unfolding s_funded_def by (intro reachable.request reachable_s_created)

lemma reachable_s_loaned: "reachable s_loaned"
  unfolding s_loaned_def by (intro reachable.request reachable_s_funded)

lemma reachable_s_two_users: "reachable s_two_users"
  unfolding s_two_users_def by (intro reachable.request reachable_s_loaned)

subsection \<open>What one handler does to the state\<close>

lemma set_update_subset: "set (AList.update k v al) \<subseteq> insert (k, v) (set al)"
  by (induction al) auto

lemma create_user_loans_db: "loans_db (snd (create_user user_input s)) = loans_db s"
  by (simp add: create_user_def Let_def)

lemma create_user_other_users:
  "k \<noteq> User_id user_input \<Longrightarrow>
     find_user_by_id k (snd (create_user user_input s)) = find_user_by_id k s"
  by (simp add: create_user_def find_user_by_id_def Let_def update_conv')



lemma perform_transaction_loans_db:
  "loans_db (snd (perform_transaction user_id t s)) = loans_db s"
  by (auto simp: perform_transaction_def Let_def split: option.splits TransactionType.splits)

lemma perform_transaction_other_users:
  "k \<noteq> user_id \<Longrightarrow>
     find_user_by_id k (snd (perform_transaction user_id t s)) = find_user_by_id k s"
  by (auto simp: perform_transaction_def find_user_by_id_def Let_def update_conv'
      split: option.splits TransactionType.splits)

lemma perform_transaction_credit:
  "find_user_by_id user_id s = Some u \<Longrightarrow> 0 < a \<Longrightarrow>
   perform_transaction user_id \<lparr>Transaction_type = CREDIT, Transaction_amount = a\<rparr> s =
     (Inr (u\<lparr>User_balance := User_balance u + a\<rparr>),
      s\<lparr>users_db := AList.update user_id (u\<lparr>User_balance := User_balance u + a\<rparr>) (users_db s)\<rparr>)"
  by (simp add: perform_transaction_def Let_def)

lemma perform_transaction_credit_refused:
  "find_user_by_id user_id s = Some u \<Longrightarrow> a \<le> 0 \<Longrightarrow>
   perform_transaction user_id \<lparr>Transaction_type = CREDIT, Transaction_amount = a\<rparr> s =
     (Inl (HTTPException InvalidAmount), s)"
  by (simp add: perform_transaction_def Let_def)

text \<open>The direct-call loan handler with its credit step evaluated.\<close>

lemma take_loan_unfolded:
  "take_loan user_id a s =
    (case find_user_by_id user_id s of
       None \<Rightarrow> (Inl (HTTPException (NotFound user_id)), s)
     | Some u \<Rightarrow>
        (case find_loan_by_user_id user_id s of
           Some l \<Rightarrow> (Inl (HTTPException (AlreadyHasLoan user_id)), s)
         | None \<Rightarrow>
            if a \<le> 0 then (Inl (HTTPException InvalidAmount), s)
            else (Inr \<lparr>Loan_user_id = user_id, Loan_amount = a\<rparr>,
                  \<lparr>users_db = AList.update user_id (u\<lparr>User_balance := User_balance u + a\<rparr>) (users_db s),
                   loans_db = AList.update user_id \<lparr>Loan_user_id = user_id, Loan_amount = a\<rparr> (loans_db s)\<rparr>)))"
  by (auto simp: take_loan_def perform_transaction_credit perform_transaction_credit_refused
      Let_def split: option.splits)

lemma take_loan_failed_state:
  "fst (take_loan user_id a s) = Inl e \<Longrightarrow> snd (take_loan user_id a s) = s"
  by (auto simp: take_loan_unfolded split: option.splits if_splits)

lemma take_loan_other_users:
  "k \<noteq> user_id \<Longrightarrow> find_user_by_id k (snd (take_loan user_id a s)) = find_user_by_id k s"
  by (auto simp: take_loan_unfolded find_user_by_id_def update_conv' split: option.splits)

lemma take_loan_other_loans:
  "k \<noteq> user_id \<Longrightarrow> find_loan_by_user_id k (snd (take_loan user_id a s)) = find_loan_by_user_id k s"
  by (auto simp: take_loan_unfolded find_loan_by_user_id_def update_conv' split: option.splits)

lemma take_loan_keeps_loan:
  "find_loan_by_user_id k s = Some l \<Longrightarrow> find_loan_by_user_id k (snd (take_loan user_id a s)) = Some l"
  by (auto simp: take_loan_unfolded find_loan_by_user_id_def update_conv' split: option.splits)

lemma handle_keeps_loan:
  "find_loan_by_user_id k s = Some l \<Longrightarrow> find_loan_by_user_id k (handle r s) = Some l"
  by (cases r)
    (simp_all add: find_loan_by_user_id_def create_user_loans_db perform_transaction_loans_db
      take_loan_keeps_loan [unfolded find_loan_by_user_id_def])

lemma filter_update_other:
  "filter (\<lambda>p. fst p \<noteq> k) (AList.update k v al) = filter (\<lambda>p. fst p \<noteq> k) al"
  by (induction al) auto

text \<open>The looped-back loan handler with its internal request evaluated.\<close>

lemma take_loan_loopback_unfolded:
  "take_loan_loopback validation_detail user_id a s =
    (case find_user_by_id user_id s of
       None \<Rightarrow> (Inl (HTTPException (NotFound user_id)), s)
     | Some u \<Rightarrow>
        (case find_loan_by_user_id user_id s of
           Some l \<Rightarrow> (Inl (HTTPException (AlreadyHasLoan user_id)), s)
         | None \<Rightarrow>
            if user_id < 1
            then (Inl (HTTPException (CreditFailed 422 validation_detail)), s)
            else if a \<le> 0
            then (Inl (HTTPException (CreditFailed 400 (detail InvalidAmount))), s)
            else (Inr \<lparr>Loan_user_id = user_id, Loan_amount = a\<rparr>,
                  \<lparr>users_db = AList.update user_id (u\<lparr>User_balance := User_balance u + a\<rparr>) (users_db s),
                   loans_db = AList.update user_id \<lparr>Loan_user_id = user_id, Loan_amount = a\<rparr> (loans_db s)\<rparr>)))"
  by (auto simp: take_loan_loopback_def post_transaction_def perform_transaction_credit
      perform_transaction_credit_refused Let_def split: option.splits)

subsection \<open>Invariants of the reachable states\<close>



lemma fold_handle_keeps_loan:
  "find_loan_by_user_id k s = Some l \<Longrightarrow> find_loan_by_user_id k (fold handle rs s) = Some l"
  by (induction rs arbitrary: s) (simp_all add: handle_keeps_loan)





lemma handle_loans_well_formed:
  assumes "distinct (map fst (loans_db s))"
    and "\<forall>p \<in> set (loans_db s). Loan_user_id (snd p) = fst p"
  shows "distinct (map fst (loans_db (handle r s))) \<and>
    (\<forall>p \<in> set (loans_db (handle r s)). Loan_user_id (snd p) = fst p)"
proof (cases r)
  case (TakeLoan user_id a)
  have d: "distinct (map fst (AList.update user_id v (loans_db s)))" for v
    using assms(1) by (rule distinct_update)
  have e: "\<forall>p \<in> set (AList.update user_id \<lparr>Loan_user_id = user_id, Loan_amount = a\<rparr> (loans_db s)).
      Loan_user_id (snd p) = fst p"
    using assms(2) by (auto dest!: subsetD [OF set_update_subset])
  show ?thesis
    using assms d e TakeLoan by (simp add: take_loan_unfolded split: option.splits)
qed (use assms in \<open>simp_all add: create_user_loans_db perform_transaction_loans_db\<close>)

lemma reachable_loans_well_formed:
  "reachable s \<Longrightarrow>
     distinct (map fst (loans_db s)) \<and> (\<forall>p \<in> set (loans_db s). Loan_user_id (snd p) = fst p)"
proof (induction rule: reachable.induct)
  case start
  show ?case by (simp add: empty_state_def)
next
  case (request s r)
  from request.IH show ?case by (blast intro: handle_loans_well_formed [THEN conjunct1]
        handle_loans_well_formed [THEN conjunct2, rule_format])
qed

lemma handle_users_origin:
  assumes "user \<in> set (get_all_users (handle r s))"
  shows "(\<exists>user0 \<in> set (get_all_users s).
            User_id user = User_id user0 \<and> User_name user = User_name user0)
       \<or> (\<exists>user_input. r = CreateUser user_input \<and>
            User_id user = User_id user_input \<and> User_name user = User_name user_input)"
proof (cases r)
  case (CreateUser user_input)
  have "user \<in> set (get_all_users s) \<or>
      User_id user = User_id user_input \<and> User_name user = User_name user_input"
    using assms CreateUser
    by (auto simp: get_all_users_def create_user_def Let_def split: if_splits
        dest!: subsetD [OF set_update_subset])
  with CreateUser show ?thesis by blast
next
  case (PerformTransaction user_id t)
  show ?thesis
  proof (cases "find_user_by_id user_id s")
    case None
    then show ?thesis using assms PerformTransaction by (auto simp: perform_transaction_def)
  next
    case (Some u)
    then have "(user_id, u) \<in> set (users_db s)"
      by (simp add: find_user_by_id_def map_of_SomeD)
    then have m: "u \<in> set (get_all_users s)"
      by (force simp: get_all_users_def)
    have "user \<in> set (get_all_users s) \<or>
        User_id user = User_id u \<and> User_name user = User_name u"
      using assms PerformTransaction Some
      by (auto simp: get_all_users_def perform_transaction_def Let_def
          split: if_splits TransactionType.splits dest!: subsetD [OF set_update_subset])
    with m show ?thesis by blast
  qed
next
  case (TakeLoan user_id a)
  show ?thesis
  proof (cases "find_user_by_id user_id s")
    case None
    then show ?thesis using assms TakeLoan by (auto simp: take_loan_unfolded)
  next
    case (Some u)
    then have "(user_id, u) \<in> set (users_db s)"
      by (simp add: find_user_by_id_def map_of_SomeD)
    then have m: "u \<in> set (get_all_users s)"
      by (force simp: get_all_users_def)
    have "user \<in> set (get_all_users s) \<or>
        User_id user = User_id u \<and> User_name user = User_name u"
      using assms TakeLoan Some
      by (auto simp: get_all_users_def take_loan_unfolded
          split: if_splits option.splits dest!: subsetD [OF set_update_subset])
    with m show ?thesis by blast
  qed
qed (use assms in auto)

lemma fold_handle_users_origin:
  "user \<in> set (get_all_users (fold handle rs s)) \<Longrightarrow>
     (\<exists>user0 \<in> set (get_all_users s).
        User_id user = User_id user0 \<and> User_name user = User_name user0)
   \<or> (\<exists>user_input. CreateUser user_input \<in> set rs \<and>
        User_id user = User_id user_input \<and> User_name user = User_name user_input)"
proof (induction rs arbitrary: s)
  case Nil
  then show ?case by auto
next
  case (Cons r rs)
  from Cons.prems have "user \<in> set (get_all_users (fold handle rs (handle r s)))" by simp
  from Cons.IH [OF this] show ?case
  proof
    assume "\<exists>user0 \<in> set (get_all_users (handle r s)).
      User_id user = User_id user0 \<and> User_name user = User_name user0"
    then obtain user0 where u0: "user0 \<in> set (get_all_users (handle r s))"
      and eq: "User_id user = User_id user0" "User_name user = User_name user0"
      by blast
    from handle_users_origin [OF u0] eq show ?thesis by auto
  next
    assume "\<exists>user_input. CreateUser user_input \<in> set rs \<and>
      User_id user = User_id user_input \<and> User_name user = User_name user_input"
    then show ?thesis by auto
  qed
qed

lemma reachable_user_keys:
  "reachable s \<Longrightarrow> \<forall>p \<in> set (users_db s). User_id (snd p) = fst p"
proof (induction rule: reachable.induct)
  case start
  show ?case by (simp add: empty_state_def)
next
  case (request s r)
  show ?case
  proof (cases r)
    case (CreateUser user_input)
    then show ?thesis using request.IH
      by (auto simp: create_user_def Let_def dest!: subsetD [OF set_update_subset])
  next
    case (PerformTransaction user_id t)
    show ?thesis
    proof (cases "find_user_by_id user_id s")
      case None
      then show ?thesis using request.IH PerformTransaction by (simp add: perform_transaction_def)
    next
      case (Some u)
      then have "(user_id, u) \<in> set (users_db s)"
        by (simp add: find_user_by_id_def map_of_SomeD)
      with request.IH have "User_id u = user_id" by fastforce
      then show ?thesis
        using request.IH PerformTransaction Some
        by (auto simp: perform_transaction_def Let_def split: TransactionType.splits
            dest!: subsetD [OF set_update_subset])
    qed
  next
    case (TakeLoan user_id a)
    show ?thesis
    proof (cases "find_user_by_id user_id s")
      case None
      then show ?thesis using request.IH TakeLoan by (simp add: take_loan_unfolded)
    next
      case (Some u)
      then have "(user_id, u) \<in> set (users_db s)"
        by (simp add: find_user_by_id_def map_of_SomeD)
      with request.IH have "User_id u = user_id" by fastforce
      then show ?thesis
        using request.IH TakeLoan Some
        by (auto simp: take_loan_unfolded split: option.splits
            dest!: subsetD [OF set_update_subset])
    qed
  qed (use request.IH in auto)
qed

subsection \<open>take\_loan: errors and atomicity\<close>




subsection \<open>Balances are never negative\<close>



subsection \<open>perform\_transaction\<close>



subsection \<open>take\_loan: the loan and the second call\<close>



subsection \<open>create\_user\<close>

text \<open>
  Claim C5. \<open>create_user\<close> raises AlreadyExists when the identifier of its input is
  already a key of \<open>users_db\<close>, and returns the state it was given, so the stored record
  is as it was. Otherwise it returns a user with the identifier and the name of its
  input and balance 0, whatever balance the input carries, and that user is what is
  stored under the identifier.
\<close>

theorem create_user_outcomes:
  "(find_user_by_id (User_id user_input) s = Some user \<longrightarrow>
      create_user user_input s = (Inl (HTTPException (AlreadyExists (User_id user_input))), s))
   \<and> (find_user_by_id (User_id user_input) s = None \<longrightarrow>
      fst (create_user user_input s) =
        Inr \<lparr>User_id = User_id user_input, User_name = User_name user_input, User_balance = 0\<rparr> \<and>
      find_user_by_id (User_id user_input) (snd (create_user user_input s)) =
        Some \<lparr>User_id = User_id user_input, User_name = User_name user_input, User_balance = 0\<rparr>)"
  by (simp add: create_user_def find_user_by_id_def Let_def update_conv')

theorem create_user_outcomes_witness:
  "create_user \<lparr>User_id = 1, User_name = ''Mallory'', User_balance = 1000\<rparr> s_funded =
     (Inl (HTTPException (AlreadyExists 1)), s_funded)
   \<and> find_user_by_id 1 s_funded = Some \<lparr>User_id = 1, User_name = ''Alice'', User_balance = 70\<rparr>
   \<and> fst (create_user \<lparr>User_id = 2, User_name = ''Bob'', User_balance = 25\<rparr> s_funded) =
       Inr \<lparr>User_id = 2, User_name = ''Bob'', User_balance = 0\<rparr>
   \<and> find_user_by_id 2 (snd (create_user \<lparr>User_id = 2, User_name = ''Bob'', User_balance = 25\<rparr> s_funded)) =
       Some \<lparr>User_id = 2, User_name = ''Bob'', User_balance = 0\<rparr>"
proof -
  let ?alice = "\<lparr>User_id = 1, User_name = ''Alice'', User_balance = 70\<rparr>"
  let ?mallory = "\<lparr>User_id = 1, User_name = ''Mallory'', User_balance = 1000\<rparr>"
  let ?bob = "\<lparr>User_id = 2, User_name = ''Bob'', User_balance = 25\<rparr>"
  have u: "find_user_by_id (User_id ?mallory) s_funded = Some ?alice"
    by (simp add: find_user_by_id_def s_funded_eq)
  have n: "find_user_by_id (User_id ?bob) s_funded = None"
    by (simp add: find_user_by_id_def s_funded_eq)
  have c1: "create_user ?mallory s_funded = (Inl (HTTPException (AlreadyExists 1)), s_funded)"
    using create_user_outcomes [where user_input = ?mallory and s = s_funded and user = ?alice] u
    by simp
  have c2: "fst (create_user ?bob s_funded) =
        Inr \<lparr>User_id = 2, User_name = ''Bob'', User_balance = 0\<rparr> \<and>
      find_user_by_id 2 (snd (create_user ?bob s_funded)) =
        Some \<lparr>User_id = 2, User_name = ''Bob'', User_balance = 0\<rparr>"
    using create_user_outcomes [where user_input = ?bob and s = s_funded] n by simp
  from u c1 c2 show ?thesis by simp
qed

subsection \<open>get\_user\_balance\_and\_loan\<close>

text \<open>
  Claim C6. \<open>get_user_balance_and_loan\<close> raises exactly when no user is stored under
  \<open>user_id\<close>, and what it raises then is NotFound. For a stored user it returns the
  user's identifier, name and balance and, as loan details, what \<open>loans_db\<close> holds under
  \<open>user_id\<close>: the loan when there is one, \<open>None\<close> when there is none. Its
  \<open>except Exception\<close> gives \<open>None\<close> for the loan details whatever the lookup raises, so
  a failed lookup cannot make the request fail.
\<close>

theorem get_user_balance_and_loan_outcomes:
  "((\<exists>e. get_user_balance_and_loan user_id s = Inl e) \<longleftrightarrow> find_user_by_id user_id s = None)
   \<and> (find_user_by_id user_id s = None \<longrightarrow>
        get_user_balance_and_loan user_id s = Inl (HTTPException (NotFound user_id)))
   \<and> (find_user_by_id user_id s = Some user \<longrightarrow>
        get_user_balance_and_loan user_id s =
          Inr \<lparr>BalanceResponse_user_id = User_id user,
               BalanceResponse_name = User_name user,
               BalanceResponse_current_balance = User_balance user,
               BalanceResponse_loan_details = find_loan_by_user_id user_id s\<rparr>)
   \<and> (find_user_by_id user_id s = Some user \<and> find_loan_by_user_id user_id s = None \<longrightarrow>
        (\<exists>response. get_user_balance_and_loan user_id s = Inr response \<and>
           BalanceResponse_loan_details response = None))
   \<and> loan_details_or_none (Inl e) = None
   \<and> loan_details_or_none (get_internal_loan_info user_id s) = find_loan_by_user_id user_id s"
  by (auto simp: get_user_balance_and_loan_def get_internal_loan_info_def split: option.splits)

theorem get_user_balance_and_loan_outcomes_witness:
  "find_user_by_id 2 s_loaned = None
   \<and> get_user_balance_and_loan 2 s_loaned = Inl (HTTPException (NotFound 2))
   \<and> get_user_balance_and_loan 1 s_loaned =
       Inr \<lparr>BalanceResponse_user_id = 1, BalanceResponse_name = ''Alice'',
            BalanceResponse_current_balance = 120,
            BalanceResponse_loan_details = Some \<lparr>Loan_user_id = 1, Loan_amount = 50\<rparr>\<rparr>
   \<and> (\<exists>response. get_user_balance_and_loan 1 s_funded = Inr response \<and>
         BalanceResponse_loan_details response = None)"
proof -
  let ?alice70 = "\<lparr>User_id = 1, User_name = ''Alice'', User_balance = 70\<rparr>"
  let ?alice120 = "\<lparr>User_id = 1, User_name = ''Alice'', User_balance = 120\<rparr>"
  have n: "find_user_by_id 2 s_loaned = None"
    by (simp add: find_user_by_id_def s_loaned_eq)
  have u: "find_user_by_id 1 s_funded = Some ?alice70"
    by (simp add: find_user_by_id_def s_funded_eq)
  have l: "find_loan_by_user_id 1 s_funded = None"
    by (simp add: find_loan_by_user_id_def s_funded_eq)
  have u': "find_user_by_id 1 s_loaned = Some ?alice120"
    by (simp add: find_user_by_id_def s_loaned_eq)
  have l': "find_loan_by_user_id 1 s_loaned = Some \<lparr>Loan_user_id = 1, Loan_amount = 50\<rparr>"
    by (simp add: find_loan_by_user_id_def s_loaned_eq)
  have c1: "get_user_balance_and_loan 2 s_loaned = Inl (HTTPException (NotFound 2))"
    using get_user_balance_and_loan_outcomes [where user_id = 2 and s = s_loaned] n by blast
  have c2: "get_user_balance_and_loan 1 s_loaned =
       Inr \<lparr>BalanceResponse_user_id = 1, BalanceResponse_name = ''Alice'',
            BalanceResponse_current_balance = 120,
            BalanceResponse_loan_details = Some \<lparr>Loan_user_id = 1, Loan_amount = 50\<rparr>\<rparr>"
    using get_user_balance_and_loan_outcomes [where user_id = 1 and s = s_loaned and user = ?alice120]
      u' l' by simp
  have c3: "\<exists>response. get_user_balance_and_loan 1 s_funded = Inr response \<and>
         BalanceResponse_loan_details response = None"
    using get_user_balance_and_loan_outcomes [where user_id = 1 and s = s_funded and user = ?alice70]
      u l by blast
  from n c1 c2 c3 show ?thesis by blast
qed

subsection \<open>The two loan handlers of Reference.py\<close>

text \<open>
  Claim C7, as stated, fails. Alice is stored and has no loan; the amount is 0. The
  direct-call handler raises the status 400 of \<open>perform_transaction\<close>; the looped-back
  handler raises a status 500 whose detail quotes that answer.
\<close>

theorem loan_handlers_differ_counterexample:
  "take_loan 1 0 s_funded = (Inl (HTTPException InvalidAmount), s_funded)
   \<and> take_loan_loopback [] 1 0 s_funded =
       (Inl (HTTPException (CreditFailed 400 ''Transaction amount must be positive.'')), s_funded)
   \<and> status_code InvalidAmount = 400
   \<and> status_code (CreditFailed 400 ''Transaction amount must be positive.'') = 500
   \<and> take_loan_loopback [] 1 0 s_funded \<noteq> take_loan 1 0 s_funded"
  by (simp add: take_loan_unfolded take_loan_loopback_unfolded find_user_by_id_def
      find_loan_by_user_id_def s_funded_eq)

text \<open>
  Claim C7, amended. On every state, the two handlers return the same result, raise the
  same error and leave the same state whenever the identifier is at least 1 and the
  amount above 0, which is what the route declares of its parameters, and whenever the
  user is not stored or has a loan already. With an identifier of at least 1 they always
  leave the same state and return the same loan if either returns one. They differ in
  the error when the credit is refused: for a stored user without a loan and an amount
  of at most 0, the direct-call handler raises InvalidAmount and the looped-back one a
  status 500 that quotes it; with an identifier below 1 the looped-back handler raises a
  status 500 that quotes the 422 of the route, and leaves the state as it was.
\<close>

theorem loan_handlers_agree_on_declared_input:
  "(1 \<le> user_id \<and> 0 < loan_amount \<longrightarrow>
      take_loan_loopback validation_detail user_id loan_amount s = take_loan user_id loan_amount s)
   \<and> (find_user_by_id user_id s = None \<longrightarrow>
      take_loan_loopback validation_detail user_id loan_amount s = take_loan user_id loan_amount s)
   \<and> (find_loan_by_user_id user_id s = Some loan \<longrightarrow>
      take_loan_loopback validation_detail user_id loan_amount s = take_loan user_id loan_amount s)
   \<and> (1 \<le> user_id \<longrightarrow>
      snd (take_loan_loopback validation_detail user_id loan_amount s) =
        snd (take_loan user_id loan_amount s) \<and>
      (fst (take_loan_loopback validation_detail user_id loan_amount s) = Inr new_loan \<longleftrightarrow>
       fst (take_loan user_id loan_amount s) = Inr new_loan))
   \<and> (1 \<le> user_id \<and> find_user_by_id user_id s = Some user \<and>
        find_loan_by_user_id user_id s = None \<and> loan_amount \<le> 0 \<longrightarrow>
      take_loan user_id loan_amount s = (Inl (HTTPException InvalidAmount), s) \<and>
      take_loan_loopback validation_detail user_id loan_amount s =
        (Inl (HTTPException (CreditFailed (status_code InvalidAmount) (detail InvalidAmount))), s))
   \<and> (user_id < 1 \<and> find_user_by_id user_id s = Some user \<and>
        find_loan_by_user_id user_id s = None \<longrightarrow>
      take_loan_loopback validation_detail user_id loan_amount s =
        (Inl (HTTPException (CreditFailed 422 validation_detail)), s))"
proof (intro conjI impI)
  assume "1 \<le> user_id \<and> 0 < loan_amount"
  then show "take_loan_loopback validation_detail user_id loan_amount s =
      take_loan user_id loan_amount s"
    by (simp add: take_loan_unfolded take_loan_loopback_unfolded split: option.splits)
next
  assume "find_user_by_id user_id s = None"
  then show "take_loan_loopback validation_detail user_id loan_amount s =
      take_loan user_id loan_amount s"
    by (simp add: take_loan_def take_loan_loopback_def)
next
  assume "find_loan_by_user_id user_id s = Some loan"
  then show "take_loan_loopback validation_detail user_id loan_amount s =
      take_loan user_id loan_amount s"
    by (simp add: take_loan_def take_loan_loopback_def split: option.splits)
next
  assume "1 \<le> user_id"
  then show "snd (take_loan_loopback validation_detail user_id loan_amount s) =
      snd (take_loan user_id loan_amount s)"
    by (simp add: take_loan_unfolded take_loan_loopback_unfolded split: option.splits)
next
  assume "1 \<le> user_id"
  then show "fst (take_loan_loopback validation_detail user_id loan_amount s) = Inr new_loan \<longleftrightarrow>
      fst (take_loan user_id loan_amount s) = Inr new_loan"
    by (simp add: take_loan_unfolded take_loan_loopback_unfolded split: option.splits)
next
  assume a: "1 \<le> user_id \<and> find_user_by_id user_id s = Some user \<and>
    find_loan_by_user_id user_id s = None \<and> loan_amount \<le> 0"
  then show "take_loan user_id loan_amount s = (Inl (HTTPException InvalidAmount), s)"
    by (simp add: take_loan_unfolded)
  from a show "take_loan_loopback validation_detail user_id loan_amount s =
      (Inl (HTTPException (CreditFailed (status_code InvalidAmount) (detail InvalidAmount))), s)"
    by (simp add: take_loan_loopback_unfolded)
next
  assume "user_id < 1 \<and> find_user_by_id user_id s = Some user \<and>
    find_loan_by_user_id user_id s = None"
  then show "take_loan_loopback validation_detail user_id loan_amount s =
      (Inl (HTTPException (CreditFailed 422 validation_detail)), s)"
    by (simp add: take_loan_loopback_unfolded)
qed


theorem loan_handlers_agree_on_declared_input_witness:
  "take_loan_loopback ''ge=1'' 1 50 s_funded = take_loan 1 50 s_funded
   \<and> fst (take_loan 1 50 s_funded) = Inr \<lparr>Loan_user_id = 1, Loan_amount = 50\<rparr>
   \<and> take_loan_loopback ''ge=1'' 2 50 s_funded = take_loan 2 50 s_funded
   \<and> take_loan_loopback ''ge=1'' 1 10 s_loaned = take_loan 1 10 s_loaned
   \<and> snd (take_loan_loopback ''ge=1'' 1 0 s_funded) = snd (take_loan 1 0 s_funded)
   \<and> take_loan 1 0 s_funded = (Inl (HTTPException InvalidAmount), s_funded)
   \<and> take_loan_loopback ''ge=1'' 1 0 s_funded =
       (Inl (HTTPException (CreditFailed 400 ''Transaction amount must be positive.'')), s_funded)
   \<and> take_loan_loopback ''ge=1'' 0 50
        (handle (CreateUser \<lparr>User_id = 0, User_name = ''Zoe'', User_balance = 0\<rparr>) empty_state) =
       (Inl (HTTPException (CreditFailed 422 ''ge=1'')),
        handle (CreateUser \<lparr>User_id = 0, User_name = ''Zoe'', User_balance = 0\<rparr>) empty_state)"
proof -
  let ?alice = "\<lparr>User_id = 1, User_name = ''Alice'', User_balance = 70\<rparr>"
  let ?zoe = "\<lparr>User_id = 0, User_name = ''Zoe'', User_balance = 0\<rparr>"
  let ?z = "handle (CreateUser ?zoe) empty_state"
  have n: "find_user_by_id 2 s_funded = None"
    by (simp add: find_user_by_id_def s_funded_eq)
  have u: "find_user_by_id 1 s_funded = Some ?alice"
    by (simp add: find_user_by_id_def s_funded_eq)
  have l: "find_loan_by_user_id 1 s_funded = None"
    by (simp add: find_loan_by_user_id_def s_funded_eq)
  have l': "find_loan_by_user_id 1 s_loaned = Some \<lparr>Loan_user_id = 1, Loan_amount = 50\<rparr>"
    by (simp add: find_loan_by_user_id_def s_loaned_eq)
  have z: "find_user_by_id 0 ?z = Some ?zoe" "find_loan_by_user_id 0 ?z = None"
    by (simp_all add: find_user_by_id_def find_loan_by_user_id_def create_user_def
        empty_state_def Let_def)
  have c1: "take_loan_loopback ''ge=1'' 1 50 s_funded = take_loan 1 50 s_funded"
    using loan_handlers_agree_on_declared_input
      [where user_id = 1 and loan_amount = 50 and s = s_funded and validation_detail = "''ge=1''"]
    by simp
  have c1': "fst (take_loan 1 50 s_funded) = Inr \<lparr>Loan_user_id = 1, Loan_amount = 50\<rparr>"
    using u l by (simp add: take_loan_unfolded)
  have c2: "take_loan_loopback ''ge=1'' 2 50 s_funded = take_loan 2 50 s_funded"
    using loan_handlers_agree_on_declared_input
      [where user_id = 2 and loan_amount = 50 and s = s_funded and validation_detail = "''ge=1''"] n
    by blast
  have c3: "take_loan_loopback ''ge=1'' 1 10 s_loaned = take_loan 1 10 s_loaned"
    using loan_handlers_agree_on_declared_input
      [where user_id = 1 and loan_amount = 10 and s = s_loaned and validation_detail = "''ge=1''"
        and loan = "\<lparr>Loan_user_id = 1, Loan_amount = 50\<rparr>"] l'
    by blast
  have c4: "snd (take_loan_loopback ''ge=1'' 1 0 s_funded) = snd (take_loan 1 0 s_funded)"
    using loan_handlers_agree_on_declared_input
      [where user_id = 1 and loan_amount = 0 and s = s_funded and validation_detail = "''ge=1''"]
    by simp
  have c5: "take_loan 1 0 s_funded = (Inl (HTTPException InvalidAmount), s_funded) \<and>
      take_loan_loopback ''ge=1'' 1 0 s_funded =
        (Inl (HTTPException (CreditFailed 400 ''Transaction amount must be positive.'')), s_funded)"
    using loan_handlers_agree_on_declared_input
      [where user_id = 1 and loan_amount = 0 and s = s_funded and validation_detail = "''ge=1''"
        and user = ?alice] u l
    by simp
  have c6: "take_loan_loopback ''ge=1'' 0 50 ?z = (Inl (HTTPException (CreditFailed 422 ''ge=1'')), ?z)"
    using loan_handlers_agree_on_declared_input
      [where user_id = 0 and loan_amount = 50 and s = ?z and validation_detail = "''ge=1''"
        and user = ?zoe] z
    by simp
  from c1 c1' c2 c3 c4 c5 c6 show ?thesis by blast
qed

subsection \<open>Identifiers and names of the stored users\<close>

text \<open>
  Claim C8, as stated, fails: \<open>create_user\<close> checks neither the identifier nor the name
  of its input. Here a user with the empty name is created from the empty store and is
  among the stored users.
\<close>

theorem stored_user_name_counterexample:
  "reachable (handle (CreateUser \<lparr>User_id = 1, User_name = [], User_balance = 0\<rparr>) empty_state)
   \<and> \<lparr>User_id = 1, User_name = [], User_balance = 0\<rparr> \<in>
       set (get_all_users
              (handle (CreateUser \<lparr>User_id = 1, User_name = [], User_balance = 0\<rparr>) empty_state))
   \<and> \<not> (1 \<le> User_id \<lparr>User_id = 1, User_name = [], User_balance = 0\<rparr> \<and>
          User_name \<lparr>User_id = 1, User_name = [], User_balance = 0\<rparr> \<noteq> [])"
proof -
  have "reachable (handle (CreateUser \<lparr>User_id = 1, User_name = [], User_balance = 0\<rparr>) empty_state)"
    by (intro reachable.intros)
  then show ?thesis
    by (simp add: get_all_users_def create_user_def empty_state_def Let_def)
qed

text \<open>
  Claim C8, amended. Every user stored after a sequence of requests from the empty store
  has the identifier and the name of the input of a \<open>create_user\<close> request of that
  sequence, as they were supplied; and in a reachable state a user is stored under its
  own identifier. Nothing is said of the sign of the identifier, and the name may be
  empty.
\<close>

theorem stored_users_as_supplied:
  "(\<forall>user \<in> set (get_all_users (fold handle rs empty_state)).
      \<exists>user_input. CreateUser user_input \<in> set rs \<and>
        User_id user = User_id user_input \<and> User_name user = User_name user_input)
   \<and> (reachable s \<and> find_user_by_id k s = Some stored \<longrightarrow> User_id stored = k)"
proof (intro conjI ballI impI)
  fix user
  assume "user \<in> set (get_all_users (fold handle rs empty_state))"
  from fold_handle_users_origin [OF this]
  show "\<exists>user_input. CreateUser user_input \<in> set rs \<and>
      User_id user = User_id user_input \<and> User_name user = User_name user_input"
    by (simp add: get_all_users_def empty_state_def)
next
  assume a: "reachable s \<and> find_user_by_id k s = Some stored"
  then have "(k, stored) \<in> set (users_db s)"
    by (simp add: find_user_by_id_def map_of_SomeD)
  with a reachable_user_keys [of s] show "User_id stored = k" by fastforce
qed

theorem stored_users_as_supplied_witness:
  "\<lparr>User_id = 2, User_name = [], User_balance = 5\<rparr> \<in>
     set (get_all_users
       (fold handle
          [CreateUser \<lparr>User_id = 2, User_name = [], User_balance = 9\<rparr>,
           PerformTransaction 2 \<lparr>Transaction_type = CREDIT, Transaction_amount = 5\<rparr>]
          empty_state))
   \<and> (\<exists>user_input.
         CreateUser user_input \<in>
           set [CreateUser \<lparr>User_id = 2, User_name = [], User_balance = 9\<rparr>,
                PerformTransaction 2 \<lparr>Transaction_type = CREDIT, Transaction_amount = 5\<rparr>] \<and>
         User_id \<lparr>User_id = 2, User_name = [], User_balance = 5\<rparr> = User_id user_input \<and>
         User_name \<lparr>User_id = 2, User_name = [], User_balance = 5\<rparr> = User_name user_input)
   \<and> reachable s_two_users
   \<and> find_user_by_id 2 s_two_users = Some \<lparr>User_id = 2, User_name = ''Bob'', User_balance = 0\<rparr>
   \<and> User_id \<lparr>User_id = 2, User_name = ''Bob'', User_balance = 0\<rparr> = 2"
proof -
  let ?rs = "[CreateUser \<lparr>User_id = 2, User_name = [], User_balance = 9\<rparr>,
           PerformTransaction 2 \<lparr>Transaction_type = CREDIT, Transaction_amount = 5\<rparr>]"
  let ?user = "\<lparr>User_id = 2, User_name = [], User_balance = 5\<rparr>"
  let ?bob = "\<lparr>User_id = 2, User_name = ''Bob'', User_balance = 0\<rparr>"
  note inst = stored_users_as_supplied [where rs = ?rs and s = s_two_users and k = 2 and stored = ?bob]
  have m: "?user \<in> set (get_all_users (fold handle ?rs empty_state))"
    by (simp add: get_all_users_def create_user_def perform_transaction_def find_user_by_id_def
        empty_state_def Let_def)
  have r: "reachable s_two_users" by (rule reachable_s_two_users)
  have u: "find_user_by_id 2 s_two_users = Some ?bob"
    by (simp add: find_user_by_id_def s_two_users_eq)
  have c1: "\<exists>user_input. CreateUser user_input \<in> set ?rs \<and>
      User_id ?user = User_id user_input \<and> User_name ?user = User_name user_input"
    using inst m by blast
  have c2: "User_id ?bob = 2"
    using inst r u by blast
  from m r u c1 c2 show ?thesis by blast
qed

subsection \<open>Loans are never changed or removed\<close>

text \<open>
  Claim C9. A loan stored for a user is still stored for that user, with the same
  amount, after any request, whether the handler returns or raises; so it is after any
  sequence of requests. In a reachable state no two of the stored loans are of the same
  user.
\<close>

theorem loan_never_changed:
  "(find_loan_by_user_id user_id s = Some loan \<longrightarrow>
      find_loan_by_user_id user_id (handle r s) = Some loan)
   \<and> (find_loan_by_user_id user_id s = Some loan \<longrightarrow>
      find_loan_by_user_id user_id (fold handle rs s) = Some loan)
   \<and> (reachable s \<longrightarrow> distinct (map Loan_user_id (get_all_loans s)))"
proof (intro conjI impI)
  assume "find_loan_by_user_id user_id s = Some loan"
  then show "find_loan_by_user_id user_id (handle r s) = Some loan"
    by (rule handle_keeps_loan)
next
  assume "find_loan_by_user_id user_id s = Some loan"
  then show "find_loan_by_user_id user_id (fold handle rs s) = Some loan"
    by (rule fold_handle_keeps_loan)
next
  assume "reachable s"
  then have w: "distinct (map fst (loans_db s)) \<and>
      (\<forall>p \<in> set (loans_db s). Loan_user_id (snd p) = fst p)"
    by (rule reachable_loans_well_formed)
  then have "map Loan_user_id (get_all_loans s) = map fst (loans_db s)"
    by (simp add: get_all_loans_def)
  with w show "distinct (map Loan_user_id (get_all_loans s))" by simp
qed


theorem loan_never_changed_witness:
  "find_loan_by_user_id 1 s_loaned = Some \<lparr>Loan_user_id = 1, Loan_amount = 50\<rparr>
   \<and> find_loan_by_user_id 1 (handle (TakeLoan 1 10) s_loaned) =
       Some \<lparr>Loan_user_id = 1, Loan_amount = 50\<rparr>
   \<and> find_loan_by_user_id 1
       (fold handle
          [PerformTransaction 1 \<lparr>Transaction_type = DEBIT, Transaction_amount = 120\<rparr>,
           TakeLoan 1 10,
           CreateUser \<lparr>User_id = 1, User_name = ''Alice'', User_balance = 0\<rparr>,
           GetUserBalanceAndLoan 1, GetAllUsers, GetAllLoans] s_loaned) =
       Some \<lparr>Loan_user_id = 1, Loan_amount = 50\<rparr>
   \<and> reachable s_loaned
   \<and> distinct (map Loan_user_id (get_all_loans s_loaned))"
proof -
  let ?loan = "\<lparr>Loan_user_id = 1, Loan_amount = 50\<rparr>"
  let ?rs = "[PerformTransaction 1 \<lparr>Transaction_type = DEBIT, Transaction_amount = 120\<rparr>,
           TakeLoan 1 10,
           CreateUser \<lparr>User_id = 1, User_name = ''Alice'', User_balance = 0\<rparr>,
           GetUserBalanceAndLoan 1, GetAllUsers, GetAllLoans]"
  note inst = loan_never_changed
    [where user_id = 1 and s = s_loaned and loan = ?loan and r = "TakeLoan 1 10" and rs = ?rs]
  have l: "find_loan_by_user_id 1 s_loaned = Some ?loan"
    by (simp add: find_loan_by_user_id_def s_loaned_eq)
  have r: "reachable s_loaned" by (rule reachable_s_loaned)
  have c1: "find_loan_by_user_id 1 (handle (TakeLoan 1 10) s_loaned) = Some ?loan"
    using inst l by blast
  have c2: "find_loan_by_user_id 1 (fold handle ?rs s_loaned) = Some ?loan"
    using inst l by blast
  have c3: "distinct (map Loan_user_id (get_all_loans s_loaned))"
    using inst r by blast
  from l r c1 c2 c3 show ?thesis by blast
qed

subsection \<open>Each handler touches the entries of its own user only\<close>

text \<open>
  Claim C10. \<open>create_user\<close> leaves every user stored under another identifier than its
  input's, and \<open>loans_db\<close>, as they are; \<open>perform_transaction\<close> leaves every user stored
  under another identifier than \<open>user_id\<close>, and \<open>loans_db\<close>, as they are; \<open>take_loan\<close>
  leaves every user and every loan stored under another identifier than \<open>user_id\<close> as
  they are. This holds of the lookups and of the dictionaries' entries in their order.
  The three reading requests leave the whole state as it is.
\<close>

theorem handlers_frame:
  "(k \<noteq> User_id user_input \<longrightarrow>
      find_user_by_id k (snd (create_user user_input s)) = find_user_by_id k s)
   \<and> filter (\<lambda>p. fst p \<noteq> User_id user_input) (users_db (snd (create_user user_input s))) =
       filter (\<lambda>p. fst p \<noteq> User_id user_input) (users_db s)
   \<and> loans_db (snd (create_user user_input s)) = loans_db s
   \<and> (k \<noteq> user_id \<longrightarrow>
      find_user_by_id k (snd (perform_transaction user_id t s)) = find_user_by_id k s)
   \<and> filter (\<lambda>p. fst p \<noteq> user_id) (users_db (snd (perform_transaction user_id t s))) =
       filter (\<lambda>p. fst p \<noteq> user_id) (users_db s)
   \<and> loans_db (snd (perform_transaction user_id t s)) = loans_db s
   \<and> (k \<noteq> user_id \<longrightarrow>
      find_user_by_id k (snd (take_loan user_id loan_amount s)) = find_user_by_id k s \<and>
      find_loan_by_user_id k (snd (take_loan user_id loan_amount s)) = find_loan_by_user_id k s)
   \<and> filter (\<lambda>p. fst p \<noteq> user_id) (users_db (snd (take_loan user_id loan_amount s))) =
       filter (\<lambda>p. fst p \<noteq> user_id) (users_db s)
   \<and> filter (\<lambda>p. fst p \<noteq> user_id) (loans_db (snd (take_loan user_id loan_amount s))) =
       filter (\<lambda>p. fst p \<noteq> user_id) (loans_db s)
   \<and> handle (GetUserBalanceAndLoan user_id) s = s
   \<and> handle GetAllUsers s = s
   \<and> handle GetAllLoans s = s"
proof (intro conjI impI)
  show "filter (\<lambda>p. fst p \<noteq> User_id user_input) (users_db (snd (create_user user_input s))) =
       filter (\<lambda>p. fst p \<noteq> User_id user_input) (users_db s)"
    by (simp add: create_user_def Let_def filter_update_other)
  show "filter (\<lambda>p. fst p \<noteq> user_id) (users_db (snd (perform_transaction user_id t s))) =
       filter (\<lambda>p. fst p \<noteq> user_id) (users_db s)"
    by (simp add: perform_transaction_def Let_def filter_update_other
        split: option.splits TransactionType.splits)
  show "filter (\<lambda>p. fst p \<noteq> user_id) (users_db (snd (take_loan user_id loan_amount s))) =
       filter (\<lambda>p. fst p \<noteq> user_id) (users_db s)"
    by (simp add: take_loan_unfolded filter_update_other split: option.splits)
  show "filter (\<lambda>p. fst p \<noteq> user_id) (loans_db (snd (take_loan user_id loan_amount s))) =
       filter (\<lambda>p. fst p \<noteq> user_id) (loans_db s)"
    by (simp add: take_loan_unfolded filter_update_other split: option.splits)
qed (simp_all add: create_user_other_users create_user_loans_db perform_transaction_other_users
    perform_transaction_loans_db take_loan_other_users take_loan_other_loans)

theorem handlers_frame_witness:
  "find_user_by_id 1 s_two_users = Some \<lparr>User_id = 1, User_name = ''Alice'', User_balance = 120\<rparr>
   \<and> find_loan_by_user_id 1 s_two_users = Some \<lparr>Loan_user_id = 1, Loan_amount = 50\<rparr>
   \<and> find_user_by_id 1
        (snd (create_user \<lparr>User_id = 3, User_name = ''Carol'', User_balance = 0\<rparr> s_two_users)) =
       Some \<lparr>User_id = 1, User_name = ''Alice'', User_balance = 120\<rparr>
   \<and> find_user_by_id 1
        (snd (perform_transaction 2 \<lparr>Transaction_type = CREDIT, Transaction_amount = 5\<rparr> s_two_users)) =
       Some \<lparr>User_id = 1, User_name = ''Alice'', User_balance = 120\<rparr>
   \<and> find_user_by_id 1 (snd (take_loan 2 5 s_two_users)) =
       Some \<lparr>User_id = 1, User_name = ''Alice'', User_balance = 120\<rparr>
   \<and> find_loan_by_user_id 1 (snd (take_loan 2 5 s_two_users)) =
       Some \<lparr>Loan_user_id = 1, Loan_amount = 50\<rparr>"
proof -
  let ?carol = "\<lparr>User_id = 3, User_name = ''Carol'', User_balance = 0\<rparr>"
  note inst = handlers_frame [where k = 1 and user_id = 2 and user_input = ?carol
      and s = s_two_users and loan_amount = 5
      and t = "\<lparr>Transaction_type = CREDIT, Transaction_amount = 5\<rparr>"]
  have k: "(1::int) \<noteq> User_id ?carol" "(1::int) \<noteq> 2" by simp_all
  have u: "find_user_by_id 1 s_two_users =
      Some \<lparr>User_id = 1, User_name = ''Alice'', User_balance = 120\<rparr>"
    by (simp add: find_user_by_id_def s_two_users_eq)
  have l: "find_loan_by_user_id 1 s_two_users = Some \<lparr>Loan_user_id = 1, Loan_amount = 50\<rparr>"
    by (simp add: find_loan_by_user_id_def s_two_users_eq)
  have c1: "find_user_by_id 1 (snd (create_user ?carol s_two_users)) = find_user_by_id 1 s_two_users"
    using inst k by blast
  have c2: "find_user_by_id 1
        (snd (perform_transaction 2 \<lparr>Transaction_type = CREDIT, Transaction_amount = 5\<rparr> s_two_users)) =
      find_user_by_id 1 s_two_users"
    using inst k by blast
  have c3: "find_user_by_id 1 (snd (take_loan 2 5 s_two_users)) = find_user_by_id 1 s_two_users \<and>
      find_loan_by_user_id 1 (snd (take_loan 2 5 s_two_users)) = find_loan_by_user_id 1 s_two_users"
    using inst k by blast
  from u l c1 c2 c3 show ?thesis by simp
qed

end
